theory Spec2Isabelle
  imports
    Complex_Main
    "HOL-Library.Multiset"
    "HOL-Library.Sublist"
    "HOL-Library.Product_Lexorder"
begin

section \<open>The crate table of \<open>app.py\<close>\<close>

text \<open>
  \<open>app.py\<close> is a Flask application over one SQLAlchemy model, \<open>Crate\<close>, kept in a
  SQLite table. The table is modelled as the list of its rows in insertion (rowid) order,
  every handler as a function of the table and of the request data, returning the new
  table where it writes.

  Python values that reach a CSV cell or a JSON member are kept as values
  (\<open>None\<close>, \<open>int\<close>, \<open>float\<close>, \<open>str\<close>); a \<open>float\<close> is modelled as a real number,
  so rounding is outside the model.
\<close>

subsection \<open>Dates and timestamps\<close>

text \<open>\<open>datetime.date\<close>: year, month, day; \<open>datetime.datetime\<close>: a date and a time of day.\<close>

record date =
  year :: nat
  month :: nat
  day :: nat

record datetime =
  dt_date :: date
  hour :: nat
  minute :: nat
  second :: nat
  microsecond :: nat

definition is_leap :: "nat \<Rightarrow> bool" where
  "is_leap y = (y mod 4 = 0 \<and> (y mod 100 \<noteq> 0 \<or> y mod 400 = 0))"

definition days_in_month :: "nat \<Rightarrow> nat \<Rightarrow> nat" where
  "days_in_month y m =
     (if m = 2 then (if is_leap y then 29 else 28)
      else if m = 4 \<or> m = 6 \<or> m = 9 \<or> m = 11 then 30 else 31)"

text \<open>The values a Python \<open>date\<close> and \<open>datetime\<close> object can hold.\<close>

definition valid_date :: "date \<Rightarrow> bool" where
  "valid_date d =
     (1 \<le> year d \<and> year d \<le> 9999 \<and> 1 \<le> month d \<and> month d \<le> 12 \<and>
      1 \<le> day d \<and> day d \<le> days_in_month (year d) (month d))"


text \<open>Decimal rendering, as \<open>str(n)\<close>, and zero padding to a width, as \<open>%04d\<close>, \<open>%02d\<close>.\<close>

definition digit_char :: "nat \<Rightarrow> char" where
  "digit_char n = char_of (48 + n mod 10)"

fun str_nat :: "nat \<Rightarrow> string" where
  "str_nat n = (if n < 10 then [digit_char n] else str_nat (n div 10) @ [digit_char n])"

declare str_nat.simps [simp del]

definition zpad :: "nat \<Rightarrow> nat \<Rightarrow> string" where
  "zpad w n = replicate (w - length (str_nat n)) (CHR ''0'') @ str_nat n"

definition str_int :: "int \<Rightarrow> string" where
  "str_int i = (if i < 0 then CHR ''-'' # str_nat (nat (- i)) else str_nat (nat i))"

text \<open>\<open>date.isoformat()\<close> and \<open>datetime.isoformat()\<close>.\<close>

definition date_isoformat :: "date \<Rightarrow> string" where
  "date_isoformat d = zpad 4 (year d) @ ''-'' @ zpad 2 (month d) @ ''-'' @ zpad 2 (day d)"

definition datetime_isoformat :: "datetime \<Rightarrow> string" where
  "datetime_isoformat t =
     date_isoformat (dt_date t) @ ''T'' @ zpad 2 (hour t) @ '':'' @ zpad 2 (minute t) @ '':'' @
     zpad 2 (second t) @ (if microsecond t = 0 then [] else ''.'' @ zpad 6 (microsecond t))"

text \<open>The shapes \<open>YYYY-MM-DD\<close> and \<open>YYYY-MM-DDTHH:MM:SS[.ffffff]\<close>.\<close>

definition is_digit :: "char \<Rightarrow> bool" where
  "is_digit c = (c \<in> set ''0123456789'')"

definition all_digits :: "nat \<Rightarrow> string \<Rightarrow> bool" where
  "all_digits w s = (length s = w \<and> list_all is_digit s)"

definition iso_date_shape :: "string \<Rightarrow> bool" where
  "iso_date_shape s =
     (all_digits 4 (take 4 s) \<and> take 1 (drop 4 s) = ''-'' \<and> all_digits 2 (take 2 (drop 5 s)) \<and>
      take 1 (drop 7 s) = ''-'' \<and> all_digits 2 (drop 8 s))"



subsection \<open>The model class\<close>

text \<open>
  The columns of \<open>Crate\<close>, in the order of the class. \<open>id\<close> and \<open>size\<close> are HOL constants,
  so these two columns are \<open>crate_id\<close> and \<open>crate_size\<close>. A nullable column is an option.
  \<open>date_received\<close> is \<open>nullable=False\<close> and both insert paths always give it a value;
  \<open>created_at\<close> is filled by its column default at every insert: both are plain values,
  and the \<open>else\<close> branches of \<open>to_dict\<close> and \<open>export_csv\<close> for a missing date are not reachable.
\<close>

record crate =
  crate_id :: int
  run_number :: "string option"
  puc :: string
  farm_name :: string
  commodity :: string
  variety :: "string option"
  grade_class :: "string option"
  crate_size :: "string option"
  weight :: "real option"
  date_received :: date
  inspector_notes :: "string option"
  created_at :: datetime

text \<open>The Python values the handlers hand to \<open>csv.writer\<close> and \<open>jsonify\<close>.\<close>

datatype pyval = PNone | PInt int | PFloat real | PStr string

definition opt_str :: "string option \<Rightarrow> pyval" where
  "opt_str v = (case v of None \<Rightarrow> PNone | Some s \<Rightarrow> PStr s)"

definition opt_float :: "real option \<Rightarrow> pyval" where
  "opt_float v = (case v of None \<Rightarrow> PNone | Some w \<Rightarrow> PFloat w)"

definition to_dict :: "crate \<Rightarrow> (string \<times> pyval) list" where
  "to_dict c =
     [(''id'', PInt (crate_id c)),
      (''run_number'', opt_str (run_number c)),
      (''puc'', PStr (puc c)),
      (''farm_name'', PStr (farm_name c)),
      (''commodity'', PStr (commodity c)),
      (''variety'', opt_str (variety c)),
      (''grade_class'', opt_str (grade_class c)),
      (''size'', opt_str (crate_size c)),
      (''weight'', opt_float (weight c)),
      (''date_received'', PStr (date_isoformat (date_received c))),
      (''inspector_notes'', opt_str (inspector_notes c)),
      (''created_at'', PStr (datetime_isoformat (created_at c)))]"

subsection \<open>Queries\<close>

text \<open>
  \<open>ORDER BY k DESC\<close>: the rows by descending key. SQL leaves the order of rows with equal
  keys open; the model keeps them in table order.
\<close>

definition order_by_desc :: "('a \<Rightarrow> 'k::linorder) \<Rightarrow> 'a list \<Rightarrow> 'a list" where
  "order_by_desc k xs = rev (sort_key k (rev xs))"

text \<open>
  A date column is compared as Python compares dates and as SQLite compares the stored
  \<open>YYYY-MM-DD\<close> text: by year, then month, then day.
\<close>

definition date_key :: "date \<Rightarrow> nat \<times> nat \<times> nat" where
  "date_key d = (year d, month d, day d)"

text \<open>
  SQLite's \<open>lower()\<close> and the comparison of \<open>LIKE\<close> fold the 26 ASCII letters only.
\<close>

definition lower :: "char \<Rightarrow> char" where
  "lower c = (if 65 \<le> (of_char c :: nat) \<and> (of_char c :: nat) \<le> 90
              then char_of ((of_char c :: nat) + 32) else c)"

text \<open>
  \<open>text LIKE pattern\<close>, SQLite's default: \<open>%\<close> stands for any run of characters, \<open>_\<close> for
  any one character, every other character for itself up to ASCII case.
\<close>

fun like :: "string \<Rightarrow> string \<Rightarrow> bool" where
  "like [] [] = True"
| "like [] (c # s) = False"
| "like (p # ps) [] = (p = CHR ''%'' \<and> like ps [])"
| "like (p # ps) (c # s) =
     (if p = CHR ''%'' then like ps (c # s) \<or> like (p # ps) s
      else (p = CHR ''_'' \<or> lower p = lower c) \<and> like ps s)"

text \<open>
  \<open>column.ilike(pattern)\<close>, which SQLAlchemy renders for SQLite as
  \<open>lower(column) LIKE lower(pattern)\<close>; the handlers call it with \<open>f"%{v}%"\<close>.
\<close>

definition ilike :: "string \<Rightarrow> string \<Rightarrow> bool" where
  "ilike col pat = like (map lower pat) (map lower col)"

definition contains_pattern :: "string \<Rightarrow> string" where
  "contains_pattern v = ''%'' @ v @ ''%''"

subsection \<open>\<open>dashboard\<close>\<close>

text \<open>
  \<open>request.args\<close> is a dictionary from names to strings. \<open>if run:\<close> is Python truth of an
  optional string: present and not empty.
\<close>

type_synonym args = "string \<rightharpoonup> string"

definition truthy :: "string option \<Rightarrow> bool" where
  "truthy v = (case v of None \<Rightarrow> False | Some s \<Rightarrow> s \<noteq> [])"

definition or_None :: "string option \<Rightarrow> string option" where
  "or_None v = (if truthy v then v else None)"

text \<open>The \<open>WHERE\<close> clause the four \<open>if\<close>s build; a \<open>NULL\<close> run number equals nothing.\<close>

definition matches :: "args \<Rightarrow> crate \<Rightarrow> bool" where
  "matches a c =
     ((if truthy (a ''run'') then run_number c = a ''run'' else True) \<and>
      (if truthy (a ''puc'') then ilike (puc c) (contains_pattern (the (a ''puc''))) else True) \<and>
      (if truthy (a ''commodity'')
       then ilike (commodity c) (contains_pattern (the (a ''commodity''))) else True) \<and>
      (if truthy (a ''farm'')
       then ilike (farm_name c) (contains_pattern (the (a ''farm''))) else True))"

record totals =
  totals_count :: nat
  total_weight :: real

text \<open>\<open>sum(c.weight or 0 for c in crates)\<close>: from 0, left to right.\<close>

definition weight_or_0 :: "crate \<Rightarrow> real" where
  "weight_or_0 c = (case weight c of None \<Rightarrow> 0 | Some w \<Rightarrow> if w = 0 then 0 else w)"

definition py_sum :: "real list \<Rightarrow> real" where
  "py_sum xs = foldl (+) 0 xs"

text \<open>The template context of \<open>dashboard.html\<close>.\<close>

record dashboard_ctx =
  crates :: "crate list"
  totals :: totals
  filters :: "(string \<times> string option) list"

definition dashboard_query :: "crate list \<Rightarrow> args \<Rightarrow> crate list" where
  "dashboard_query store a =
     order_by_desc (\<lambda>c. (date_key (date_received c), crate_id c)) (filter (matches a) store)"

definition dashboard :: "crate list \<Rightarrow> args \<Rightarrow> dashboard_ctx" where
  "dashboard store a =
     (let cs = dashboard_query store a in
      \<lparr>crates = cs,
       totals = \<lparr>totals_count = length cs, total_weight = py_sum (map weight_or_0 cs)\<rparr>,
       filters = [(''run'', a ''run''), (''puc'', a ''puc''),
                  (''commodity'', a ''commodity''), (''farm'', a ''farm'')]\<rparr>)"

subsection \<open>The library and the clock\<close>

text \<open>
  What the handlers take from outside the file: \<open>float(s)\<close> and
  \<open>datetime.strptime(s, "%Y-%m-%d").date()\<close> on a string (\<open>None\<close> where Python raises
  \<open>ValueError\<close>), the two readings of \<open>datetime.utcnow()\<close> of an insert (in the handler,
  and by the column default of \<open>created_at\<close> when the row is flushed), and the text SQLite
  stores when a number is bound to a text column.
\<close>

record env =
  py_float :: "string \<Rightarrow> real option"
  strptime_ymd :: "string \<Rightarrow> date option"
  utcnow :: datetime
  utcnow_flush :: datetime
  sqlite_text :: "real \<Rightarrow> string"

text \<open>The exceptions the handlers can meet, each with the offending key or text.\<close>

datatype exn =
    BadRequestKeyError string
  | ValueError_float string
  | ValueError_strptime string
  | TypeError_strptime
  | IntegrityError string

text \<open>
  \<open>db.session.add(c); db.session.commit()\<close>: SQLite gives the new row the largest id of
  the table plus one (1 in an empty table), the column default stamps \<open>created_at\<close>.
\<close>

definition next_id :: "crate list \<Rightarrow> int" where
  "next_id store = foldr max (map crate_id store) 0 + 1"

definition commit :: "env \<Rightarrow> crate list \<Rightarrow> crate \<Rightarrow> crate list \<times> crate" where
  "commit e store c =
     (let c' = c\<lparr>crate_id := next_id store, created_at := utcnow_flush e\<rparr>
      in (store @ [c'], c'))"

subsection \<open>\<open>add_crate\<close> (POST)\<close>

text \<open>
  \<open>request.form\<close> maps field names to strings. \<open>data[k]\<close> raises on a missing key,
  \<open>data.get(k)\<close> gives \<open>None\<close>; \<open>v or None\<close> turns the empty string into \<open>None\<close>.
\<close>

type_synonym form = "string \<rightharpoonup> string"

definition getitem :: "form \<Rightarrow> string \<Rightarrow> exn + string" where
  "getitem d k = (case d k of None \<Rightarrow> Inl (BadRequestKeyError k) | Some v \<Rightarrow> Inr v)"

definition form_weight :: "env \<Rightarrow> form \<Rightarrow> exn + real option" where
  "form_weight e d =
     (if truthy (d ''weight'')
      then (case py_float e (the (d ''weight'')) of
              None \<Rightarrow> Inl (ValueError_float (the (d ''weight'')))
            | Some w \<Rightarrow> Inr (Some w))
      else Inr None)"

definition form_date :: "env \<Rightarrow> form \<Rightarrow> exn + date" where
  "form_date e d =
     (if truthy (d ''date_received'')
      then (case strptime_ymd e (the (d ''date_received'')) of
              None \<Rightarrow> Inl (ValueError_strptime (the (d ''date_received'')))
            | Some dt \<Rightarrow> Inr dt)
      else Inr (dt_date (utcnow e)))"

text \<open>
  The call \<open>Crate(...)\<close> of the handler: the arguments are evaluated in the order written,
  and the first exception ends the call. The id and \<open>created_at\<close> are set by \<open>commit\<close>;
  until then they hold 0 and the handler's clock reading.
\<close>

definition form_crate :: "env \<Rightarrow> form \<Rightarrow> exn + crate" where
  "form_crate e d =
     (case getitem d ''puc'' of Inl x \<Rightarrow> Inl x | Inr p \<Rightarrow>
      case getitem d ''farm_name'' of Inl x \<Rightarrow> Inl x | Inr f \<Rightarrow>
      case getitem d ''commodity'' of Inl x \<Rightarrow> Inl x | Inr co \<Rightarrow>
      case form_weight e d of Inl x \<Rightarrow> Inl x | Inr w \<Rightarrow>
      case form_date e d of Inl x \<Rightarrow> Inl x | Inr dr \<Rightarrow>
      Inr \<lparr>crate_id = 0,
           run_number = or_None (d ''run_number''),
           puc = p,
           farm_name = f,
           commodity = co,
           variety = or_None (d ''variety''),
           grade_class = or_None (d ''grade_class''),
           crate_size = or_None (d ''size''),
           weight = w,
           date_received = dr,
           inspector_notes = or_None (d ''inspector_notes''),
           created_at = utcnow e\<rparr>)"

text \<open>
  What a handler answers: a redirect to a named endpoint with the flashed message, a JSON
  body with its status, or the 404 of \<open>get_or_404\<close>. The flashed failure carries the
  exception \<open>e\<close> of \<open>f"Failed to add crate: {e}"\<close>.
\<close>

datatype flash = Flash_success string | Flash_danger exn

datatype body = Obj "(string \<times> pyval) list" | Arr "(string \<times> pyval) list list"

datatype response =
    Redirect string flash
  | Jsonify body nat
  | NotFound

definition add_crate :: "env \<Rightarrow> crate list \<Rightarrow> form \<Rightarrow> crate list \<times> response" where
  "add_crate e store d =
     (case form_crate e d of
        Inr c \<Rightarrow> (fst (commit e store c), Redirect ''dashboard'' (Flash_success ''Crate added.''))
      | Inl x \<Rightarrow> (store, Redirect ''add_crate'' (Flash_danger x)))"

subsection \<open>\<open>crate_detail\<close>\<close>



subsection \<open>\<open>export_csv\<close>\<close>

text \<open>
  The rows given to \<open>writer.writerow\<close>, the header first. \<open>csv.writer\<close> writes \<open>None\<close> as
  the empty field and every other value as its \<open>str\<close>. The document is what the
  \<open>StringIO\<close> holds; its delivery by \<open>send_file\<close> is not modelled.
\<close>

definition replace_newlines :: "string \<Rightarrow> string" where
  "replace_newlines s = concat (map (\<lambda>c. if c = CHR 0x0A then [CHR 0x5C, CHR ''n''] else [c]) s)"





subsection \<open>\<open>api_crates\<close>\<close>

text \<open>
  \<open>request.json\<close>: an object whose members are strings, numbers or \<open>null\<close> (booleans,
  arrays and nested objects are left out). \<open>payload.get(k)\<close> is \<open>None\<close> for a missing
  key and for \<open>null\<close> alike.
\<close>

datatype jval = JNull | JStr string | JNum real

type_synonym payload = "string \<rightharpoonup> jval"

definition jget :: "payload \<Rightarrow> string \<Rightarrow> jval" where
  "jget p k = (case p k of None \<Rightarrow> JNull | Some v \<Rightarrow> v)"

definition jtruthy :: "jval \<Rightarrow> bool" where
  "jtruthy v = (case v of JNull \<Rightarrow> False | JStr s \<Rightarrow> s \<noteq> [] | JNum r \<Rightarrow> r \<noteq> 0)"

text \<open>A value bound to a text column, as the row then holds it.\<close>

definition text_column :: "env \<Rightarrow> jval \<Rightarrow> string option" where
  "text_column e v =
     (case v of JNull \<Rightarrow> None | JStr s \<Rightarrow> Some s | JNum r \<Rightarrow> Some (sqlite_text e r))"

text \<open>A \<open>nullable=False\<close> text column refuses \<open>None\<close> when the row is flushed.\<close>

definition required_column :: "env \<Rightarrow> string \<Rightarrow> jval \<Rightarrow> exn + string" where
  "required_column e k v =
     (case text_column e v of None \<Rightarrow> Inl (IntegrityError k) | Some s \<Rightarrow> Inr s)"

definition api_weight :: "env \<Rightarrow> payload \<Rightarrow> exn + real option" where
  "api_weight e p =
     (if jtruthy (jget p ''weight'')
      then (case jget p ''weight'' of
              JStr s \<Rightarrow> (case py_float e s of None \<Rightarrow> Inl (ValueError_float s)
                                             | Some w \<Rightarrow> Inr (Some w))
            | JNum r \<Rightarrow> Inr (Some r)
            | JNull \<Rightarrow> Inr None)
      else Inr None)"

definition api_date :: "env \<Rightarrow> payload \<Rightarrow> exn + date" where
  "api_date e p =
     (if jtruthy (jget p ''date_received'')
      then (case jget p ''date_received'' of
              JStr s \<Rightarrow> (case strptime_ymd e s of None \<Rightarrow> Inl (ValueError_strptime s)
                                                 | Some dt \<Rightarrow> Inr dt)
            | _ \<Rightarrow> Inl TypeError_strptime)
      else Inr (dt_date (utcnow e)))"

definition api_crate :: "env \<Rightarrow> payload \<Rightarrow> exn + crate" where
  "api_crate e p =
     (case api_weight e p of Inl x \<Rightarrow> Inl x | Inr w \<Rightarrow>
      case api_date e p of Inl x \<Rightarrow> Inl x | Inr dr \<Rightarrow>
      case required_column e ''puc'' (jget p ''puc'') of Inl x \<Rightarrow> Inl x | Inr pu \<Rightarrow>
      case required_column e ''farm_name'' (jget p ''farm_name'') of Inl x \<Rightarrow> Inl x | Inr fa \<Rightarrow>
      case required_column e ''commodity'' (jget p ''commodity'') of Inl x \<Rightarrow> Inl x | Inr co \<Rightarrow>
      Inr \<lparr>crate_id = 0,
           run_number = text_column e (jget p ''run_number''),
           puc = pu,
           farm_name = fa,
           commodity = co,
           variety = text_column e (jget p ''variety''),
           grade_class = text_column e (jget p ''grade_class''),
           crate_size = text_column e (jget p ''size''),
           weight = w,
           date_received = dr,
           inspector_notes = text_column e (jget p ''inspector_notes''),
           created_at = utcnow e\<rparr>)"

text \<open>
  The POST branch. Its result is the table and either the response or the exception
  that leaves the handler, which has no \<open>try\<close>: Flask answers that one with a bare
  500 page.
\<close>

definition required_error :: body where
  "required_error = Obj [(''error'', PStr ''puc, farm_name and commodity are required'')]"

definition api_crates_post :: "env \<Rightarrow> crate list \<Rightarrow> payload \<Rightarrow> crate list \<times> (exn + response)" where
  "api_crates_post e store p =
     (if \<not> jtruthy (jget p ''puc'') \<or> \<not> jtruthy (jget p ''farm_name'') \<or>
         \<not> jtruthy (jget p ''commodity'')
      then (store, Inr (Jsonify required_error 400))
      else (case api_crate e p of
              Inl x \<Rightarrow> (store, Inl x)
            | Inr c \<Rightarrow> (let (store', c') = commit e store c
                       in (store', Inr (Jsonify (Obj (to_dict c')) 201)))))"


subsection \<open>The filter as the specification words it\<close>





subsection \<open>Data for the worked examples\<close>

text \<open>
  An environment whose parsers read unsigned decimal integers and zero-padded valid dates,
  to the values Python reads them to, and reject everything else; its clock stands at
  2024-03-05 09:30:00 (flush a second later). The theorems hold for every environment;
  this one gives them inputs to run on.
\<close>

definition digits_value :: "string \<Rightarrow> nat" where
  "digits_value s = foldl (\<lambda>n c. 10 * n + (of_char c - 48)) 0 s"

definition sample_float :: "string \<Rightarrow> real option" where
  "sample_float s = (if s \<noteq> [] \<and> list_all is_digit s then Some (real (digits_value s)) else None)"

definition sample_strptime :: "string \<Rightarrow> date option" where
  "sample_strptime s =
     (if iso_date_shape s
      then (let d = \<lparr>year = digits_value (take 4 s), month = digits_value (take 2 (drop 5 s)),
                      day = digits_value (drop 8 s)\<rparr>
            in if valid_date d then Some d else None)
      else None)"

definition sample_env :: env where
  "sample_env =
     \<lparr>py_float = sample_float,
      strptime_ymd = sample_strptime,
      utcnow = \<lparr>dt_date = \<lparr>year = 2024, month = 3, day = 5\<rparr>,
                 hour = 9, minute = 30, second = 0, microsecond = 0\<rparr>,
      utcnow_flush = \<lparr>dt_date = \<lparr>year = 2024, month = 3, day = 5\<rparr>,
                       hour = 9, minute = 30, second = 1, microsecond = 250\<rparr>,
      sqlite_text = (\<lambda>r. str_int (floor r))\<rparr>"

text \<open>A row with the given id, date, commodity, weight and notes.\<close>

definition sample_crate :: "int \<Rightarrow> date \<Rightarrow> string \<Rightarrow> real option \<Rightarrow> string option \<Rightarrow> crate" where
  "sample_crate i d co w n =
     \<lparr>crate_id = i, run_number = None, puc = ''P01'', farm_name = ''Hillside'', commodity = co,
      variety = None, grade_class = None, crate_size = None, weight = w, date_received = d,
      inspector_notes = n,
      created_at = \<lparr>dt_date = d, hour = 8, minute = 0, second = 0, microsecond = 0\<rparr>\<rparr>"

definition jan :: "nat \<Rightarrow> date" where
  "jan n = \<lparr>year = 2024, month = 1, day = n\<rparr>"

text \<open>Dates 2024-01-01, 2024-01-02, 2024-01-02 with ids 1, 2, 3.\<close>

definition dated_store :: "crate list" where
  "dated_store =
     [sample_crate 1 (jan 1) ''Apple'' None None,
      sample_crate 2 (jan 2) ''APPLES'' (Some 12.5) (Some ''line1\<newline>line2''),
      sample_crate 3 (jan 2) ''pear'' (Some 7) None]"





definition api_required_ok :: "payload \<Rightarrow> bool" where
  "api_required_ok p =
     (jtruthy (jget p ''puc'') \<and> jtruthy (jget p ''farm_name'') \<and> jtruthy (jget p ''commodity''))"


text \<open>Two requests: the commodity filter \<open>apple\<close>, and one with the wildcard \<open>_\<close>.\<close>

definition apple_args :: args where
  "apple_args = [''commodity'' \<mapsto> ''apple'']"


section \<open>Properties\<close>

subsection \<open>Ordering\<close>


lemma set_order_by_desc: "set (order_by_desc k xs) = set xs"
  by (simp add: order_by_desc_def)


lemma sorted_order_by_desc: "sorted_wrt (\<lambda>a b. k b \<le> k a) (order_by_desc k xs)"
proof -
  have "sorted (map k (sort_key k (rev xs)))"
    by (rule sorted_sort_key)
  then have "sorted_wrt (\<lambda>a b. k a \<le> k b) (sort_key k (rev xs))"
    by (simp add: sorted_map)
  then show ?thesis
    by (simp add: order_by_desc_def sorted_wrt_rev)
qed

lemma date_key_inj: "date_key a = date_key b \<longleftrightarrow> a = b"
  by (cases a, cases b) (simp add: date_key_def)

lemma dashboard_query_sorted:
  "sorted_wrt (\<lambda>a b. date_key (date_received b) < date_key (date_received a) \<or>
       (date_received a = date_received b \<and> crate_id b \<le> crate_id a))
     (dashboard_query store a)"
proof -
  let ?k = "\<lambda>c. (date_key (date_received c), crate_id c)"
  have "sorted_wrt (\<lambda>x y. ?k y \<le> ?k x) (order_by_desc ?k (filter (matches a) store))"
    by (rule sorted_order_by_desc)
  then show ?thesis
    unfolding dashboard_query_def
    by (auto elim!: sorted_wrt_mono_rel [rotated] simp: date_key_inj less_le)
qed

lemma crates_dashboard: "crates (dashboard store a) = dashboard_query store a"
  by (simp add: dashboard_def Let_def)

lemma dated_store_order:
  "map crate_id (dashboard_query dated_store Map.empty) = [3, 2, 1]"
  by (simp add: dashboard_query_def order_by_desc_def dated_store_def sample_crate_def jan_def
      matches_def truthy_def date_key_def)

text \<open>
  C4. The list of the dashboard is in descending order of \<open>date_received\<close>, rows of one
  date in descending order of id; on the rows dated 2024-01-01, 2024-01-02, 2024-01-02
  with ids 1, 2, 3 the order is 3, 2, 1.
\<close>

theorem dashboard_order:
  "sorted_wrt (\<lambda>a b. date_key (date_received b) < date_key (date_received a) \<or>
       (date_received a = date_received b \<and> crate_id b \<le> crate_id a))
     (crates (dashboard store a)) \<and>
   map date_received dated_store = [jan 1, jan 2, jan 2] \<and>
   map crate_id dated_store = [1, 2, 3] \<and>
   map crate_id (crates (dashboard dated_store Map.empty)) = [3, 2, 1]"
proof -
  have "map date_received dated_store = [jan 1, jan 2, jan 2]"
    by (simp add: dated_store_def sample_crate_def)
  moreover have "map crate_id dated_store = [1, 2, 3]"
    by (simp add: dated_store_def sample_crate_def)
  ultimately show ?thesis
    by (simp only: crates_dashboard dashboard_query_sorted dated_store_order simp_thms)
qed

theorem dashboard_order_witness:
  "sorted_wrt (\<lambda>a b. date_key (date_received b) < date_key (date_received a) \<or>
       (date_received a = date_received b \<and> crate_id b \<le> crate_id a))
     (crates (dashboard dated_store apple_args)) \<and>
   map crate_id (crates (dashboard dated_store Map.empty)) = [3, 2, 1]"
  using dashboard_order [of dated_store apple_args] by blast

subsection \<open>Totals\<close>







subsection \<open>Empty filters\<close>

lemma matches_empty_is_absent: "matches (a(k \<mapsto> [])) = matches (a(k := None))"
  by (rule ext) (simp add: matches_def truthy_def)

text \<open>
  C10. A filter parameter given as the empty string acts as the same request without the
  parameter: the rows, their order and the totals are the same.
\<close>

theorem dashboard_empty_filter:
  "crates (dashboard store (a(k \<mapsto> []))) = crates (dashboard store (a(k := None))) \<and>
   totals (dashboard store (a(k \<mapsto> []))) = totals (dashboard store (a(k := None)))"
  by (simp add: dashboard_def dashboard_query_def Let_def matches_empty_is_absent)

theorem dashboard_empty_filter_witness:
  "crates (dashboard dated_store (apple_args(''run'' \<mapsto> []))) =
     crates (dashboard dated_store (apple_args(''run'' := None))) \<and>
   totals (dashboard dated_store (apple_args(''run'' \<mapsto> []))) =
     totals (dashboard dated_store (apple_args(''run'' := None)))"
  by (rule dashboard_empty_filter)

subsection \<open>Inserting\<close>

lemma form_crate_empty_puc:
  "form_crate e [''puc'' \<mapsto> [], ''farm_name'' \<mapsto> ''F'', ''commodity'' \<mapsto> ''C''] =
     Inr \<lparr>crate_id = 0, run_number = None, puc = [], farm_name = ''F'', commodity = ''C'',
          variety = None, grade_class = None, crate_size = None, weight = None,
          date_received = dt_date (utcnow e), inspector_notes = None, created_at = utcnow e\<rparr>"
  by (simp add: form_crate_def getitem_def form_weight_def form_date_def or_None_def truthy_def)

text \<open>
  C1. The claim says that no insert path stores a row whose \<open>puc\<close>, \<open>farm_name\<close> or
  \<open>commodity\<close> is empty. \<open>api_crates\<close> refuses such a body (\<open>if not puc or ...\<close>), but
  \<open>add_crate\<close> only reads \<open>data["puc"]\<close>: a form whose \<open>puc\<close> field is present and empty
  is stored, in any table and at any time, and answered with the success notice.
\<close>

theorem add_crate_persists_empty_puc:
  "add_crate e store [''puc'' \<mapsto> [], ''farm_name'' \<mapsto> ''F'', ''commodity'' \<mapsto> ''C''] =
     (store @ [\<lparr>crate_id = next_id store, run_number = None, puc = [], farm_name = ''F'',
                commodity = ''C'', variety = None, grade_class = None, crate_size = None,
                weight = None, date_received = dt_date (utcnow e), inspector_notes = None,
                created_at = utcnow_flush e\<rparr>],
      Redirect ''dashboard'' (Flash_success ''Crate added.''))"
  by (simp add: add_crate_def form_crate_empty_puc commit_def Let_def)

theorem add_crate_persists_empty_puc_witness:
  "length (fst (add_crate sample_env dated_store
      [''puc'' \<mapsto> [], ''farm_name'' \<mapsto> ''F'', ''commodity'' \<mapsto> ''C''])) = length dated_store + 1 \<and>
   puc (last (fst (add_crate sample_env dated_store
      [''puc'' \<mapsto> [], ''farm_name'' \<mapsto> ''F'', ''commodity'' \<mapsto> ''C'']))) = []"
  using add_crate_persists_empty_puc [of sample_env dated_store] by simp

text \<open>
  C7. The claim says that both insert paths store an optional field given as the empty
  string as absent. \<open>add_crate\<close> does (\<open>data.get(k) or None\<close>); \<open>api_crates\<close> passes
  \<open>payload.get(k)\<close> on as it is, so the body below is stored with \<open>variety\<close> the empty
  string. (Its \<open>date_received\<close>, not given, is the UTC date of the clock, and the row has
  a new id: those parts of the claim hold.)
\<close>

theorem api_post_keeps_empty_string:
  "api_crates_post e store
     [''puc'' \<mapsto> JStr ''A'', ''farm_name'' \<mapsto> JStr ''B'', ''commodity'' \<mapsto> JStr ''C'',
      ''variety'' \<mapsto> JStr []] =
     (store @ [\<lparr>crate_id = next_id store, run_number = None, puc = ''A'', farm_name = ''B'',
                commodity = ''C'', variety = Some [], grade_class = None, crate_size = None,
                weight = None, date_received = dt_date (utcnow e), inspector_notes = None,
                created_at = utcnow_flush e\<rparr>],
      Inr (Jsonify (Obj (to_dict \<lparr>crate_id = next_id store, run_number = None, puc = ''A'',
                farm_name = ''B'', commodity = ''C'', variety = Some [], grade_class = None,
                crate_size = None, weight = None, date_received = dt_date (utcnow e),
                inspector_notes = None, created_at = utcnow_flush e\<rparr>)) 201))"
  by (simp add: api_crates_post_def api_crate_def api_weight_def api_date_def jget_def
      jtruthy_def text_column_def required_column_def commit_def Let_def)

theorem api_post_keeps_empty_string_witness:
  "length (fst (api_crates_post sample_env dated_store
      [''puc'' \<mapsto> JStr ''A'', ''farm_name'' \<mapsto> JStr ''B'', ''commodity'' \<mapsto> JStr ''C'',
       ''variety'' \<mapsto> JStr []])) = length dated_store + 1 \<and>
   variety (last (fst (api_crates_post sample_env dated_store
      [''puc'' \<mapsto> JStr ''A'', ''farm_name'' \<mapsto> JStr ''B'', ''commodity'' \<mapsto> JStr ''C'',
       ''variety'' \<mapsto> JStr []]))) = Some []"
  using api_post_keeps_empty_string [of sample_env dated_store] by simp

text \<open>
  C2. The claim says that every validation failure of an insert leaves the table as it was
  and reports the specific error to the caller. The table is left as it was on both paths,
  and \<open>add_crate\<close> catches the exception and flashes it; \<open>api_crates\<close> has no handler
  around \<open>float(...)\<close> and \<open>strptime(...)\<close>, so a weight that is no number leaves the
  handler as an exception, which the client sees as a bare server error, not as an error
  payload.
\<close>

theorem api_post_bad_weight_raises:
  "py_float e ''abc'' = None \<Longrightarrow>
   api_crates_post e store
     [''puc'' \<mapsto> JStr ''A'', ''farm_name'' \<mapsto> JStr ''B'', ''commodity'' \<mapsto> JStr ''C'',
      ''weight'' \<mapsto> JStr ''abc''] = (store, Inl (ValueError_float ''abc''))"
  by (simp add: api_crates_post_def api_crate_def api_weight_def jget_def jtruthy_def)

lemma sample_float_abc: "py_float sample_env ''abc'' = None"
  by (simp add: sample_env_def sample_float_def is_digit_def)

theorem api_post_bad_weight_raises_witness:
  "py_float sample_env ''abc'' = None \<and>
   api_crates_post sample_env dated_store
     [''puc'' \<mapsto> JStr ''A'', ''farm_name'' \<mapsto> JStr ''B'', ''commodity'' \<mapsto> JStr ''C'',
      ''weight'' \<mapsto> JStr ''abc''] = (dated_store, Inl (ValueError_float ''abc''))"
  using api_post_bad_weight_raises [OF sample_float_abc, of dated_store] sample_float_abc
  by simp

text \<open>What does hold of a failed insert, on both paths: the table is the one before.\<close>

lemma add_crate_failure:
  "form_crate e d = Inl x \<Longrightarrow> add_crate e store d = (store, Redirect ''add_crate'' (Flash_danger x))"
  by (simp add: add_crate_def)

lemma api_post_missing_required:
  "\<not> api_required_ok p \<Longrightarrow> api_crates_post e store p = (store, Inr (Jsonify required_error 400))"
  by (auto simp: api_crates_post_def api_required_ok_def)

lemma api_post_failure:
  "api_required_ok p \<Longrightarrow> api_crate e p = Inl x \<Longrightarrow> api_crates_post e store p = (store, Inl x)"
  by (simp add: api_crates_post_def api_required_ok_def)

subsection \<open>Round trip\<close>










subsection \<open>ISO renderings\<close>










subsection \<open>The JSON list\<close>








subsection \<open>The CSV export\<close>





lemma replace_newlines_append:
  "replace_newlines (a @ b) = replace_newlines a @ replace_newlines b"
  by (simp add: replace_newlines_def)








subsection \<open>Filtering\<close>

lemma of_char_lower:
  "(of_char (lower c) :: nat) =
     (if 65 \<le> (of_char c :: nat) \<and> (of_char c :: nat) \<le> 90 then of_char c + 32 else of_char c)"
  by (simp add: lower_def)

lemma lower_idem [simp]: "lower (lower c) = lower c"
  by (simp add: lower_def)

lemma lower_eq_percent [simp]: "lower c = CHR ''%'' \<longleftrightarrow> c = CHR ''%''"
proof -
  have "lower c = CHR ''%'' \<longleftrightarrow> (of_char (lower c) :: nat) = of_char (CHR ''%'')"
    by (simp only: of_char_eq_iff)
  also have "\<dots> \<longleftrightarrow> (of_char c :: nat) = 37"
    by (simp add: of_char_lower)
  also have "\<dots> \<longleftrightarrow> (of_char c :: nat) = of_char (CHR ''%'')"
    by simp
  also have "\<dots> \<longleftrightarrow> c = CHR ''%''"
    by (simp only: of_char_eq_iff)
  finally show ?thesis .
qed

lemma lower_eq_underscore [simp]: "lower c = CHR ''_'' \<longleftrightarrow> c = CHR ''_''"
proof -
  have "lower c = CHR ''_'' \<longleftrightarrow> (of_char (lower c) :: nat) = of_char (CHR ''_'')"
    by (simp only: of_char_eq_iff)
  also have "\<dots> \<longleftrightarrow> (of_char c :: nat) = 95"
    by (simp add: of_char_lower)
  also have "\<dots> \<longleftrightarrow> (of_char c :: nat) = of_char (CHR ''_'')"
    by simp
  also have "\<dots> \<longleftrightarrow> c = CHR ''_''"
    by (simp only: of_char_eq_iff)
  finally show ?thesis .
qed

lemma lower_percent [simp]: "lower (CHR ''%'') = CHR ''%''"
  by (simp add: lower_def)

lemma lower_underscore [simp]: "lower (CHR ''_'') = CHR ''_''"
  by (simp add: lower_def)

lemma like_Nil [simp]: "like [] s \<longleftrightarrow> s = []"
  by (cases s) simp_all




lemma percent_eq_lower [simp]: "CHR ''%'' = lower c \<longleftrightarrow> c = CHR ''%''"
  using lower_eq_percent [of c] by (simp only: eq_commute [of "CHR ''%''"])

lemma underscore_eq_lower [simp]: "CHR ''_'' = lower c \<longleftrightarrow> c = CHR ''_''"
  using lower_eq_underscore [of c] by (simp only: eq_commute [of "CHR ''_''"])

lemma lower_comp [simp]: "lower \<circ> lower = lower"
  by (rule ext) simp











end
